theory Spec2Isabelle
  imports Complex_Main
begin

section \<open>Numbers\<close>

text \<open>
  A JavaScript number is modelled as an exact real extended with the three special
  values of IEEE 754 arithmetic. Arithmetic on finite values is exact: rounding (of doubles
  and of the 32-bit storage of \<open>Float32Array\<close>), overflow and the sign of zero are
  not modelled. The special values arise as in the language: \<open>0/0\<close> is \<open>NaN\<close>,
  \<open>x/0\<close> is an infinity, every operation on \<open>NaN\<close> is \<open>NaN\<close>, every comparison
  with \<open>NaN\<close> is false, and \<open>Math.min\<close>/\<open>Math.max\<close> return \<open>NaN\<close> when an argument
  is \<open>NaN\<close>.
\<close>

datatype jsnum = Fin real | PInf | NInf | NaN

fun isFin :: "jsnum \<Rightarrow> bool" where
  "isFin (Fin a) = True"
| "isFin PInf = False"
| "isFin NInf = False"
| "isFin NaN = False"

fun val :: "jsnum \<Rightarrow> real" where
  "val (Fin a) = a"
| "val PInf = 0"
| "val NInf = 0"
| "val NaN = 0"

fun jneg :: "jsnum \<Rightarrow> jsnum" where
  "jneg (Fin a) = Fin (- a)"
| "jneg PInf = NInf"
| "jneg NInf = PInf"
| "jneg NaN = NaN"

fun jadd :: "jsnum \<Rightarrow> jsnum \<Rightarrow> jsnum" where
  "jadd (Fin a) (Fin b) = Fin (a + b)"
| "jadd (Fin a) PInf = PInf"
| "jadd (Fin a) NInf = NInf"
| "jadd (Fin a) NaN = NaN"
| "jadd PInf (Fin b) = PInf"
| "jadd PInf PInf = PInf"
| "jadd PInf NInf = NaN"
| "jadd PInf NaN = NaN"
| "jadd NInf (Fin b) = NInf"
| "jadd NInf PInf = NaN"
| "jadd NInf NInf = NInf"
| "jadd NInf NaN = NaN"
| "jadd NaN y = NaN"

definition jsub :: "jsnum \<Rightarrow> jsnum \<Rightarrow> jsnum" where
  "jsub x y = jadd x (jneg y)"

text \<open>The sign of a number that is not \<open>NaN\<close>: \<open>-1\<close>, \<open>0\<close> or \<open>1\<close>.\<close>

fun jsign :: "jsnum \<Rightarrow> int" where
  "jsign (Fin a) = (if a < 0 then - 1 else if a = 0 then 0 else 1)"
| "jsign PInf = 1"
| "jsign NInf = - 1"
| "jsign NaN = 0"

definition infOfSign :: "int \<Rightarrow> jsnum" where
  "infOfSign s = (if s = 0 then NaN else if 0 < s then PInf else NInf)"

fun jmul :: "jsnum \<Rightarrow> jsnum \<Rightarrow> jsnum" where
  "jmul (Fin a) (Fin b) = Fin (a * b)"
| "jmul NaN y = NaN"
| "jmul (Fin a) NaN = NaN"
| "jmul PInf NaN = NaN"
| "jmul NInf NaN = NaN"
| "jmul x y = infOfSign (jsign x * jsign y)"

fun jdiv :: "jsnum \<Rightarrow> jsnum \<Rightarrow> jsnum" where
  "jdiv (Fin a) (Fin b) = (if b = 0 then infOfSign (jsign (Fin a)) else Fin (a / b))"
| "jdiv NaN y = NaN"
| "jdiv (Fin a) NaN = NaN"
| "jdiv PInf NaN = NaN"
| "jdiv NInf NaN = NaN"
| "jdiv (Fin a) PInf = Fin 0"
| "jdiv (Fin a) NInf = Fin 0"
| "jdiv PInf (Fin b) = (if b < 0 then NInf else PInf)"
| "jdiv NInf (Fin b) = (if b < 0 then PInf else NInf)"
| "jdiv PInf PInf = NaN"
| "jdiv PInf NInf = NaN"
| "jdiv NInf PInf = NaN"
| "jdiv NInf NInf = NaN"

fun jlt :: "jsnum \<Rightarrow> jsnum \<Rightarrow> bool" where
  "jlt (Fin a) (Fin b) = (a < b)"
| "jlt NaN y = False"
| "jlt (Fin a) NaN = False"
| "jlt PInf y = False"
| "jlt NInf NaN = False"
| "jlt NInf NInf = False"
| "jlt NInf y = True"
| "jlt (Fin a) PInf = True"
| "jlt (Fin a) NInf = False"

fun jle :: "jsnum \<Rightarrow> jsnum \<Rightarrow> bool" where
  "jle (Fin a) (Fin b) = (a \<le> b)"
| "jle NaN y = False"
| "jle (Fin a) NaN = False"
| "jle PInf NaN = False"
| "jle NInf NaN = False"
| "jle PInf PInf = True"
| "jle PInf y = False"
| "jle NInf y = True"
| "jle (Fin a) PInf = True"
| "jle (Fin a) NInf = False"

definition jgt :: "jsnum \<Rightarrow> jsnum \<Rightarrow> bool" where
  "jgt x y = jlt y x"

definition jge :: "jsnum \<Rightarrow> jsnum \<Rightarrow> bool" where
  "jge x y = jle y x"

text \<open>Strict equality \<open>===\<close> on numbers: \<open>NaN\<close> is not equal to itself.\<close>

definition jeq :: "jsnum \<Rightarrow> jsnum \<Rightarrow> bool" where
  "jeq x y = (x \<noteq> NaN \<and> x = y)"

definition jmin :: "jsnum \<Rightarrow> jsnum \<Rightarrow> jsnum" where
  "jmin x y = (if x = NaN \<or> y = NaN then NaN else if jlt y x then y else x)"

definition jmax :: "jsnum \<Rightarrow> jsnum \<Rightarrow> jsnum" where
  "jmax x y = (if x = NaN \<or> y = NaN then NaN else if jlt x y then y else x)"

fun jabs :: "jsnum \<Rightarrow> jsnum" where
  "jabs (Fin a) = Fin \<bar>a\<bar>"
| "jabs PInf = PInf"
| "jabs NInf = PInf"
| "jabs NaN = NaN"

fun jsqrt :: "jsnum \<Rightarrow> jsnum" where
  "jsqrt (Fin a) = (if a < 0 then NaN else Fin (sqrt a))"
| "jsqrt PInf = PInf"
| "jsqrt NInf = NaN"
| "jsqrt NaN = NaN"

fun jfloor :: "jsnum \<Rightarrow> jsnum" where
  "jfloor (Fin a) = Fin (of_int \<lfloor>a\<rfloor>)"
| "jfloor x = x"

fun jtanh :: "jsnum \<Rightarrow> jsnum" where
  "jtanh (Fin a) = Fin (tanh a)"
| "jtanh PInf = Fin 1"
| "jtanh NInf = Fin (- 1)"
| "jtanh NaN = NaN"

fun jexp :: "jsnum \<Rightarrow> jsnum" where
  "jexp (Fin a) = Fin (exp a)"
| "jexp PInf = PInf"
| "jexp NInf = Fin 0"
| "jexp NaN = NaN"

fun jcos :: "jsnum \<Rightarrow> jsnum" where
  "jcos (Fin a) = Fin (cos a)"
| "jcos x = NaN"

text \<open>
  Reading a typed array at an index: out of range the language gives \<open>undefined\<close>, which
  every arithmetic operation of the program turns into \<open>NaN\<close>.
\<close>

definition rd :: "jsnum list \<Rightarrow> nat \<Rightarrow> jsnum" where
  "rd xs i = (if i < length xs then xs ! i else NaN)"

text \<open>\<open>xs.slice(s, e)\<close> for integers \<open>0 \<le> s\<close>, \<open>0 \<le> e\<close>: both ends are cut at the length.\<close>

definition slice :: "'a list \<Rightarrow> nat \<Rightarrow> nat \<Rightarrow> 'a list" where
  "slice xs s e = take (e - s) (drop s xs)"

text \<open>\<open>target.set(source, offset)\<close> when \<open>offset + source.length \<le> target.length\<close>.\<close>

definition setAt :: "'a list \<Rightarrow> 'a list \<Rightarrow> nat \<Rightarrow> 'a list" where
  "setAt target source offset = take offset target @ source @ drop (offset + length source) target"

section \<open>Data model\<close>

record AudioBuffer =
  left :: "jsnum list"
  right :: "jsnum list"
  sampleRate :: jsnum

record FrequencyDistribution =
  low :: jsnum
  mid :: jsnum
  high :: jsnum

record StereoAnalysis =
  width :: jsnum
  richness :: jsnum
  rmsLevel :: jsnum
  peakLevel :: jsnum
  phaseCorrelation :: jsnum
  frequencyDistribution :: FrequencyDistribution

datatype Activation = Relu | Tanh | Sigmoid | Linear

record NeuralLayer =
  weights :: "jsnum list list"
  biases :: "jsnum list"
  activation :: Activation

text \<open>\<open>ConversionOptions\<close>: every field is optional (\<open>None\<close> is an absent field).\<close>

record ConversionOptions =
  optPreserveWidth :: "jsnum option"
  optPreserveRichness :: "jsnum option"
  optVolumeCompensation :: "jsnum option"
  optSampleRate :: "jsnum option"
  optQuality :: "jsnum option"
  optSpectralAnalysis :: "bool option"

text \<open>\<open>Required<ConversionOptions>\<close>, the options a converter holds.\<close>

record Options =
  preserveWidth :: jsnum
  preserveRichness :: jsnum
  volumeCompensation :: jsnum
  sampleRateOpt :: "jsnum option"
  quality :: jsnum
  spectralAnalysis :: bool

record Converter =
  options :: Options
  processor :: "NeuralLayer list"

text \<open>
  The program has no \<open>throw\<close> and calls nothing that throws on the inputs of its types;
  the error type names the failure the specification speaks of.
\<close>

datatype error = ValidationError

section \<open>AudioUtils\<close>

subsection \<open>calculateHarmonicContent\<close>

text \<open>The state of the loop: \<open>energy\<close> and the zero-crossing count \<open>zcr\<close>.\<close>

definition harmonicStep :: "jsnum list \<Rightarrow> jsnum \<times> nat \<Rightarrow> nat \<Rightarrow> jsnum \<times> nat" where
  "harmonicStep window st i =
     (let energy = jadd (fst st) (jmul (rd window i) (rd window i));
          zcr = (if 0 < i \<and> jlt (jmul (rd window i) (rd window (i - 1))) (Fin 0)
                 then Suc (snd st) else snd st)
      in (energy, zcr))"

definition calculateHarmonicContent :: "jsnum list \<Rightarrow> jsnum" where
  "calculateHarmonicContent window =
     (let st = foldl (harmonicStep window) (Fin 0, 0) [0..<length window];
          normalizedZcr = jdiv (Fin (real (snd st))) (Fin (real (length window)));
          normalizedEnergy = jsqrt (jdiv (fst st) (Fin (real (length window))))
      in jmul (jmul normalizedZcr normalizedEnergy) (Fin 10))"

subsection \<open>calculateRichness\<close>

text \<open>
  The loop \<open>for (i = 0; i < length - windowSize; i += windowSize / 2)\<close> with
  \<open>windowSize = 256\<close>; \<open>len\<close> is \<open>Math.min(left.length, 8192)\<close>.
\<close>

function richnessLoop :: "AudioBuffer \<Rightarrow> nat \<Rightarrow> nat \<Rightarrow> jsnum \<Rightarrow> jsnum" where
  "richnessLoop buffer len i harmonicSum =
     (if int i < int len - 256
      then richnessLoop buffer len (i + 128)
             (jadd (jadd harmonicSum (calculateHarmonicContent (slice (left buffer) i (i + 256))))
                   (calculateHarmonicContent (slice (right buffer) i (i + 256))))
      else harmonicSum)"
  by pat_completeness auto
termination
  by (relation "measure (\<lambda>(buffer, len, i, harmonicSum). len - i)") auto

declare richnessLoop.simps [simp del]

text \<open>\<open>Math.floor((length - windowSize) / (windowSize / 2)) * 2\<close>\<close>

definition numWindows :: "nat \<Rightarrow> jsnum" where
  "numWindows len = jmul (jfloor (jdiv (Fin (real_of_int (int len - 256))) (Fin 128))) (Fin 2)"

definition calculateRichness :: "AudioBuffer \<Rightarrow> jsnum" where
  "calculateRichness buffer =
     (let len = min (length (left buffer)) 8192;
          harmonicSum = richnessLoop buffer len 0 (Fin 0)
      in jmin (Fin 1) (jdiv harmonicSum (numWindows len)))"

subsection \<open>analyzeFrequencyDistribution\<close>

text \<open>The state of the loop: \<open>(lowEnergy, midEnergy, highEnergy)\<close>.\<close>

definition freqStep :: "AudioBuffer \<Rightarrow> jsnum \<times> jsnum \<times> jsnum \<Rightarrow> nat \<Rightarrow> jsnum \<times> jsnum \<times> jsnum" where
  "freqStep buffer st i =
     (let l = left buffer; r = right buffer;
          lDiff = jabs (jsub (rd l i) (rd l (i - 1)));
          rDiff = jabs (jsub (rd r i) (rd r (i - 1)));
          diff = jdiv (jadd lDiff rDiff) (Fin 2);
          e = jadd (jabs (rd l i)) (jabs (rd r i))
      in case st of (lowEnergy, midEnergy, highEnergy) \<Rightarrow>
           if jlt diff (Fin (1/10)) then (jadd lowEnergy e, midEnergy, highEnergy)
           else if jlt diff (Fin (3/10)) then (lowEnergy, jadd midEnergy e, highEnergy)
           else (lowEnergy, midEnergy, jadd highEnergy e))"

definition analyzeFrequencyDistribution :: "AudioBuffer \<Rightarrow> FrequencyDistribution" where
  "analyzeFrequencyDistribution buffer =
     (let len = min (length (left buffer)) 4096 in
      case foldl (freqStep buffer) (Fin 0, Fin 0, Fin 0) [1..<len] of
        (lowEnergy, midEnergy, highEnergy) \<Rightarrow>
          (let total = jadd (jadd lowEnergy midEnergy) highEnergy in
           \<lparr> low = (if jgt total (Fin 0) then jdiv lowEnergy total else Fin 0),
             mid = (if jgt total (Fin 0) then jdiv midEnergy total else Fin 0),
             high = (if jgt total (Fin 0) then jdiv highEnergy total else Fin 0) \<rparr>))"

subsection \<open>analyzeStereo\<close>

record AnalysisAcc =
  widthSum :: jsnum
  correlationSum :: jsnum
  leftPowerSum :: jsnum
  rightPowerSum :: jsnum
  rmsSum :: jsnum
  peakAcc :: jsnum

definition analysisInit :: AnalysisAcc where
  "analysisInit = \<lparr> widthSum = Fin 0, correlationSum = Fin 0, leftPowerSum = Fin 0,
                    rightPowerSum = Fin 0, rmsSum = Fin 0, peakAcc = Fin 0 \<rparr>"

definition analysisStep :: "AudioBuffer \<Rightarrow> AnalysisAcc \<Rightarrow> nat \<Rightarrow> AnalysisAcc" where
  "analysisStep buffer a i =
     (let l = rd (left buffer) i; r = rd (right buffer) i;
          diff = jabs (jsub l r);
          m = jdiv (jadd l r) (Fin 2);
          peak = jmax (jabs l) (jabs r)
      in \<lparr> widthSum = jadd (widthSum a) diff,
           correlationSum = jadd (correlationSum a) (jmul l r),
           leftPowerSum = jadd (leftPowerSum a) (jmul l l),
           rightPowerSum = jadd (rightPowerSum a) (jmul r r),
           rmsSum = jadd (rmsSum a) (jmul m m),
           peakAcc = (if jgt peak (peakAcc a) then peak else peakAcc a) \<rparr>)"

definition analyzeStereo :: "AudioBuffer \<Rightarrow> StereoAnalysis" where
  "analyzeStereo buffer =
     (let len = length (left buffer);
          n = Fin (real len);
          a = foldl (analysisStep buffer) analysisInit [0..<len];
          leftRMS = jsqrt (jdiv (leftPowerSum a) n);
          rightRMS = jsqrt (jdiv (rightPowerSum a) n);
          normalization = jmul leftRMS rightRMS
      in \<lparr> width = jmin (Fin 1) (jdiv (widthSum a) n),
           richness = calculateRichness buffer,
           rmsLevel = jsqrt (jdiv (rmsSum a) n),
           peakLevel = peakAcc a,
           phaseCorrelation =
             (if jgt normalization (Fin 0) then jdiv (jdiv (correlationSum a) n) normalization
              else Fin 0),
           frequencyDistribution = analyzeFrequencyDistribution buffer \<rparr>)"

subsection \<open>applyHannWindow, calculateRMS, normalize, softClip\<close>

definition hannCoeff :: "nat \<Rightarrow> nat \<Rightarrow> jsnum" where
  "hannCoeff len i =
     jmul (Fin (1/2))
       (jsub (Fin 1) (jcos (jdiv (Fin (2 * pi * real i)) (Fin (real_of_int (int len - 1))))))"

definition applyHannWindow :: "jsnum list \<Rightarrow> jsnum list" where
  "applyHannWindow samples =
     map (\<lambda>i. jmul (rd samples i) (hannCoeff (length samples) i)) [0..<length samples]"

definition calculateRMS :: "jsnum list \<Rightarrow> jsnum" where
  "calculateRMS samples =
     jsqrt (jdiv (foldl (\<lambda>sum i. jadd sum (jmul (rd samples i) (rd samples i))) (Fin 0)
                    [0..<length samples])
                 (Fin (real (length samples))))"

text \<open>\<open>AudioUtils.normalize\<close>; the name \<open>normalize\<close> is taken by the library.\<close>

definition normalizeTo :: "jsnum list \<Rightarrow> jsnum \<Rightarrow> jsnum list" where
  "normalizeTo samples targetRMS =
     (let currentRMS = calculateRMS samples in
      if jeq currentRMS (Fin 0) then samples
      else (let gain = jdiv targetRMS currentRMS in
            map (\<lambda>i. jmax (Fin (- 1)) (jmin (Fin 1) (jmul (rd samples i) gain)))
              [0..<length samples]))"

definition softClipSample :: "jsnum \<Rightarrow> jsnum \<Rightarrow> jsnum" where
  "softClipSample threshold x =
     (let absX = jabs x in
      if jle absX threshold then x
      else (let sign = (if jge x (Fin 0) then Fin 1 else Fin (- 1)) in
            jmul sign
              (jadd threshold
                 (jmul (jsub (Fin 1) threshold)
                    (jtanh (jdiv (jsub absX threshold) (jsub (Fin 1) threshold)))))))"

definition softClip :: "jsnum list \<Rightarrow> jsnum \<Rightarrow> jsnum list" where
  "softClip samples threshold =
     map (\<lambda>i. softClipSample threshold (rd samples i)) [0..<length samples]"

section \<open>NeuralNetwork and AudioFeatureProcessor\<close>

text \<open>
  \<open>Math.random()\<close> is modelled by the sequence \<open>rnd\<close> of the values it returns, in
  the order of the calls; \<open>k\<close> is the number of calls made so far. \<open>createLayer\<close> returns
  the layer and the new count.
\<close>

definition createLayer :: "(nat \<Rightarrow> real) \<Rightarrow> nat \<Rightarrow> nat \<Rightarrow> nat \<Rightarrow> bool \<Rightarrow> NeuralLayer \<times> nat" where
  "createLayer rnd k inputSize outputSize isOutput =
     (let scale = jsqrt (jdiv (Fin 2) (Fin (real (inputSize + outputSize))));
          draw = (\<lambda>c. jsub (jmul (Fin (rnd c)) (Fin 2)) (Fin 1))
      in (\<lparr> weights = map (\<lambda>i. map (\<lambda>j. jmul (draw (k + i * inputSize + j)) scale)
                                  [0..<inputSize]) [0..<outputSize],
             biases = map (\<lambda>i. jmul (draw (k + outputSize * inputSize + i)) (Fin (1/100)))
                        [0..<outputSize],
             activation = (if isOutput then Linear else Relu) \<rparr>,
          k + outputSize * inputSize + outputSize))"

text \<open>
  The constructor's loop over \<open>sizes = [inputSize, ...hiddenSizes, outputSize]\<close>: one layer
  for each pair of neighbours, the last one being the output layer.
\<close>

fun mkLayers :: "(nat \<Rightarrow> real) \<Rightarrow> nat \<Rightarrow> nat list \<Rightarrow> NeuralLayer list" where
  "mkLayers rnd k (a # b # rest) =
     (case createLayer rnd k a b (rest = []) of
        (layer, k') \<Rightarrow> layer # mkLayers rnd k' (b # rest))"
| "mkLayers rnd k [a] = []"
| "mkLayers rnd k [] = []"

definition newNeuralNetwork :: "(nat \<Rightarrow> real) \<Rightarrow> nat \<Rightarrow> nat list \<Rightarrow> nat \<Rightarrow> NeuralLayer list" where
  "newNeuralNetwork rnd inputSize hiddenSizes outputSize =
     mkLayers rnd 0 ([inputSize] @ hiddenSizes @ [outputSize])"

definition optimizeLayer :: "NeuralLayer \<Rightarrow> NeuralLayer" where
  "optimizeLayer layer =
     layer \<lparr> weights :=
       map (\<lambda>w. map (\<lambda>j. if j < 5 then jmul (rd w j) (Fin (12/10)) else rd w j) [0..<length w])
         (weights layer) \<rparr>"

definition optimizeForAudioPreservation :: "NeuralLayer list \<Rightarrow> NeuralLayer list" where
  "optimizeForAudioPreservation layers = map optimizeLayer layers"

definition createPretrainedAudioModel :: "(nat \<Rightarrow> real) \<Rightarrow> NeuralLayer list" where
  "createPretrainedAudioModel rnd = optimizeForAudioPreservation (newNeuralNetwork rnd 8 [16, 8] 4)"

fun activate :: "jsnum \<Rightarrow> Activation \<Rightarrow> jsnum" where
  "activate x Relu = jmax (Fin 0) x"
| "activate x Tanh = jtanh x"
| "activate x Sigmoid = jdiv (Fin 1) (jadd (Fin 1) (jexp (jneg x)))"
| "activate x Linear = x"

definition neuronSum :: "jsnum list \<Rightarrow> jsnum list \<Rightarrow> jsnum \<Rightarrow> jsnum" where
  "neuronSum input w bias =
     foldl (\<lambda>sum j. jadd sum (jmul (rd input j) (rd w j))) bias [0..<length input]"

definition forwardLayer :: "jsnum list \<Rightarrow> NeuralLayer \<Rightarrow> jsnum list" where
  "forwardLayer input layer =
     map (\<lambda>i. activate (neuronSum input (weights layer ! i) (rd (biases layer) i))
                 (activation layer))
       [0..<length (weights layer)]"

definition forward :: "NeuralLayer list \<Rightarrow> jsnum list \<Rightarrow> jsnum list" where
  "forward layers input = foldl forwardLayer input layers"

definition processFeatures :: "NeuralLayer list \<Rightarrow> jsnum list \<Rightarrow> jsnum list" where
  "processFeatures network features =
     (let normalized = map (\<lambda>i. jmax (Fin 0) (jmin (Fin 1) (rd features i))) [0..<length features];
          w = forward network normalized
      in [ jmax (Fin (3/10)) (jmin (Fin (7/10)) (jadd (Fin (1/2)) (jmul (rd w 0) (Fin (2/10))))),
           jmax (Fin (3/10)) (jmin (Fin (7/10)) (jadd (Fin (1/2)) (jmul (rd w 1) (Fin (2/10))))),
           jmax (Fin 0) (jmin (Fin (1/2)) (rd w 2)),
           jmax (Fin 0) (jmin (Fin (3/10)) (rd w 3)) ])"

section \<open>StereoToMonoConverter\<close>

definition resolveOptions :: "ConversionOptions \<Rightarrow> Options" where
  "resolveOptions opts =
     \<lparr> preserveWidth = (case optPreserveWidth opts of Some v \<Rightarrow> v | None \<Rightarrow> Fin (7/10)),
       preserveRichness = (case optPreserveRichness opts of Some v \<Rightarrow> v | None \<Rightarrow> Fin (8/10)),
       volumeCompensation = (case optVolumeCompensation opts of Some v \<Rightarrow> v | None \<Rightarrow> Fin (11/10)),
       sampleRateOpt = optSampleRate opts,
       quality = (case optQuality opts of Some v \<Rightarrow> v | None \<Rightarrow> Fin (8/10)),
       spectralAnalysis = (case optSpectralAnalysis opts of Some v \<Rightarrow> v | None \<Rightarrow> True) \<rparr>"

definition noOptions :: ConversionOptions where
  "noOptions = \<lparr> optPreserveWidth = None, optPreserveRichness = None,
                 optVolumeCompensation = None, optSampleRate = None, optQuality = None,
                 optSpectralAnalysis = None \<rparr>"

definition newConverter :: "(nat \<Rightarrow> real) \<Rightarrow> ConversionOptions \<Rightarrow> Converter" where
  "newConverter rnd opts =
     \<lparr> options = resolveOptions opts, processor = createPretrainedAudioModel rnd \<rparr>"

definition calculateMixingWeights :: "Converter \<Rightarrow> StereoAnalysis \<Rightarrow> jsnum list" where
  "calculateMixingWeights conv analysis =
     processFeatures (processor conv)
       [ width analysis, richness analysis, rmsLevel analysis, peakLevel analysis,
         jdiv (jadd (phaseCorrelation analysis) (Fin 1)) (Fin 2),
         low (frequencyDistribution analysis), mid (frequencyDistribution analysis),
         high (frequencyDistribution analysis) ]"

definition downmixSample :: "Options \<Rightarrow> jsnum list \<Rightarrow> jsnum \<Rightarrow> jsnum \<Rightarrow> jsnum" where
  "downmixSample opts w l r =
     (let leftWeight = rd w 0; rightWeight = rd w 1; sideGain = rd w 2;
          m = jadd (jmul l leftWeight) (jmul r rightWeight)
      in if jgt (preserveWidth opts) (Fin 0)
         then (let side = jmul (jmul (jsub l r) sideGain) (preserveWidth opts)
               in jadd m (jmul side (Fin (1/2))))
         else m)"

definition performIntelligentDownmix ::
    "Converter \<Rightarrow> AudioBuffer \<Rightarrow> StereoAnalysis \<Rightarrow> jsnum list \<Rightarrow> jsnum list" where
  "performIntelligentDownmix conv buffer analysis w =
     map (\<lambda>i. downmixSample (options conv) w (rd (left buffer) i) (rd (right buffer) i))
       [0..<length (left buffer)]"

text \<open>
  The windowing loop of \<open>extractHarmonicContent\<close>,
  \<open>for (i = 0; i < length; i += windowSize / 2)\<close> with \<open>windowSize = Math.min(512, length)\<close>.
  The hop is a half-integer when the window size is odd, so the loop variable is kept
  doubled: \<open>i2 = 2 * i\<close>. \<open>slice\<close> and \<open>set\<close> truncate their index arguments to
  integers.
\<close>

function windowLoop :: "nat \<Rightarrow> nat \<Rightarrow> jsnum list \<Rightarrow> jsnum list" where
  "windowLoop len i2 harmonic =
     (if i2 < 2 * len
      then (let windowSize = min 512 len;
                start = i2 div 2;
                endIdx = min ((i2 + 2 * windowSize) div 2) len;
                windowed = applyHannWindow (slice harmonic start endIdx)
            in windowLoop len (i2 + windowSize) (setAt harmonic windowed start))
      else harmonic)"
  by pat_completeness auto
termination
  by (relation "measure (\<lambda>(len, i2, harmonic). 2 * len - i2)") auto

declare windowLoop.simps [simp del]

definition extractHarmonicContent :: "AudioBuffer \<Rightarrow> jsnum list" where
  "extractHarmonicContent buffer =
     (let len = length (left buffer);
          harmonic = map (\<lambda>i. jmul (jsub (rd (left buffer) i) (rd (right buffer) i)) (Fin (1/2)))
                       [0..<len]
      in windowLoop len 0 harmonic)"

text \<open>The in-place loop of \<open>enhanceHighFrequencies\<close>, from index 1, left to right.\<close>

definition enhanceStep :: "jsnum \<Rightarrow> jsnum list \<Rightarrow> nat \<Rightarrow> jsnum list" where
  "enhanceStep enhancementFactor samples i =
     (let highFreq = jmul (jsub (rd samples i) (rd samples (i - 1))) (Fin (1/2))
      in samples [i := jadd (rd samples i) (jmul highFreq (jsub enhancementFactor (Fin 1)))])"

definition enhanceHighFrequencies :: "Converter \<Rightarrow> jsnum list \<Rightarrow> jsnum \<Rightarrow> jsnum list" where
  "enhanceHighFrequencies conv samples highFreqRatio =
     (let enhancementFactor =
            jadd (Fin 1) (jmul (jmul highFreqRatio (Fin (2/10))) (preserveRichness (options conv)))
      in foldl (enhanceStep enhancementFactor) samples [1..<length samples])"

definition applyPreservationTechniques ::
    "Converter \<Rightarrow> jsnum list \<Rightarrow> AudioBuffer \<Rightarrow> StereoAnalysis \<Rightarrow> jsnum list" where
  "applyPreservationTechniques conv monoMix buffer analysis =
     (if jeq (preserveRichness (options conv)) (Fin 0) then monoMix
      else (let enhanced =
                  (if spectralAnalysis (options conv) \<and> jgt (richness analysis) (Fin (3/10))
                   then (let harmonicEnhancement = extractHarmonicContent buffer;
                             richnessFactor = jmul (preserveRichness (options conv)) (richness analysis)
                         in map (\<lambda>i. jadd (rd monoMix i)
                                        (jmul (jmul (rd harmonicEnhancement i) richnessFactor)
                                           (Fin (15/100))))
                              [0..<length monoMix])
                   else monoMix)
            in if jgt (high (frequencyDistribution analysis)) (Fin (2/10))
               then enhanceHighFrequencies conv enhanced (high (frequencyDistribution analysis))
               else enhanced))"

definition applyVolumeCompensation :: "Converter \<Rightarrow> jsnum list \<Rightarrow> StereoAnalysis \<Rightarrow> jsnum list" where
  "applyVolumeCompensation conv samples analysis =
     (let targetRMS = jmul (rmsLevel analysis) (volumeCompensation (options conv));
          widthCompensation = jadd (Fin 1) (jmul (width analysis) (Fin (15/100)));
          adjustedTarget = jmul targetRMS widthCompensation
      in normalizeTo samples adjustedTarget)"

text \<open>
  \<open>convert\<close> and \<open>analyze\<close> are the entry points; neither has a path that raises, so
  both return on the right of the sum.
\<close>

definition convert :: "Converter \<Rightarrow> AudioBuffer \<Rightarrow> error + jsnum list" where
  "convert conv buffer =
     (let analysis = analyzeStereo buffer;
          mixingWeights = calculateMixingWeights conv analysis;
          monoMix = performIntelligentDownmix conv buffer analysis mixingWeights;
          enhanced = applyPreservationTechniques conv monoMix buffer analysis;
          compensated = applyVolumeCompensation conv enhanced analysis
      in Inr (softClip compensated (Fin (95/100))))"

definition analyze :: "Converter \<Rightarrow> AudioBuffer \<Rightarrow> error + StereoAnalysis" where
  "analyze conv buffer = Inr (analyzeStereo buffer)"

section \<open>Reference definitions\<close>

text \<open>
  A buffer whose samples are real numbers, and the quantities the specification names:
  the mean of a sequence, its root mean square, the running peak of two channels and the
  energy the frequency analysis distributes over its three bands.
\<close>

definition finBuffer :: "real list \<Rightarrow> real list \<Rightarrow> jsnum \<Rightarrow> AudioBuffer" where
  "finBuffer l r sr = \<lparr> left = map Fin l, right = map Fin r, sampleRate = sr \<rparr>"



primrec peakOf :: "real list \<Rightarrow> real list \<Rightarrow> nat \<Rightarrow> real" where
  "peakOf l r 0 = 0"
| "peakOf l r (Suc n) = max (peakOf l r n) (max \<bar>l ! n\<bar> \<bar>r ! n\<bar>)"

definition bandEnergy :: "real list \<Rightarrow> real list \<Rightarrow> real" where
  "bandEnergy l r = (\<Sum>i = 1..<min (length l) 4096. \<bar>l ! i\<bar> + \<bar>r ! i\<bar>)"

text \<open>
  A layer with \<open>nin\<close> inputs and \<open>nout\<close> units whose parameters are all numbers and
  whose activation is one of the two the constructor uses.
\<close>

definition finiteLayer :: "nat \<Rightarrow> nat \<Rightarrow> NeuralLayer \<Rightarrow> bool" where
  "finiteLayer nin nout layer \<longleftrightarrow>
     length (weights layer) = nout \<and> length (biases layer) = nout \<and>
     (\<forall>w \<in> set (weights layer). length w = nin \<and> (\<forall>x \<in> set w. isFin x)) \<and>
     (\<forall>b \<in> set (biases layer). isFin b) \<and>
     (activation layer = Relu \<or> activation layer = Linear)"

fun clamp01 :: "jsnum \<Rightarrow> real" where
  "clamp01 (Fin a) = max 0 (min 1 a)"
| "clamp01 PInf = 1"
| "clamp01 NInf = 0"
| "clamp01 NaN = 0"

text \<open>The random sequence that returns \<open>0.5\<close> at every call, and the layer it yields.\<close>

definition midRandom :: "nat \<Rightarrow> real" where
  "midRandom k = 1/2"


text \<open>
  The all-zero buffer of \<open>n\<close> samples at 44100 Hz, and the analysis of a silent signal.
\<close>

definition silentBuffer :: "nat \<Rightarrow> AudioBuffer" where
  "silentBuffer n =
     \<lparr> left = replicate n (Fin 0), right = replicate n (Fin 0), sampleRate = Fin 44100 \<rparr>"

definition silentAnalysis :: StereoAnalysis where
  "silentAnalysis =
     \<lparr> width = Fin 0, richness = Fin 0, rmsLevel = Fin 0, peakLevel = Fin 0,
       phaseCorrelation = Fin 0,
       frequencyDistribution = \<lparr> low = Fin 0, mid = Fin 0, high = Fin 0 \<rparr> \<rparr>"

text \<open>The buffer with two empty channels, and a converter with the default options.\<close>

definition emptyBuffer :: AudioBuffer where
  "emptyBuffer = \<lparr> left = [], right = [], sampleRate = Fin 44100 \<rparr>"

definition defaultConverter :: Converter where
  "defaultConverter = newConverter midRandom noOptions"





section \<open>Arithmetic of the number model\<close>

lemma jadd_NaN_right [simp]: "jadd x NaN = NaN"
  by (cases x) simp_all

lemma jmul_NaN_right [simp]: "jmul x NaN = NaN"
  by (cases x) simp_all

lemma jdiv_NaN_right [simp]: "jdiv x NaN = NaN"
  by (cases x) simp_all

lemma jsub_NaN [simp]: "jsub x NaN = NaN" "jsub NaN y = NaN"
  by (simp_all add: jsub_def)

lemma jsub_Fin [simp]: "jsub (Fin a) (Fin b) = Fin (a - b)"
  by (simp add: jsub_def)

lemma jmin_Fin [simp]: "jmin (Fin a) (Fin b) = Fin (min a b)"
  by (simp add: jmin_def min_def)

lemma jmax_Fin [simp]: "jmax (Fin a) (Fin b) = Fin (max a b)"
  by (simp add: jmax_def max_def)

lemma jmin_NaN [simp]: "jmin x NaN = NaN" "jmin NaN y = NaN"
  by (simp_all add: jmin_def)

lemma jmax_NaN [simp]: "jmax x NaN = NaN" "jmax NaN y = NaN"
  by (simp_all add: jmax_def)

lemma jgt_Fin [simp]: "jgt (Fin a) (Fin b) = (b < a)"
  by (simp add: jgt_def)

lemma jge_Fin [simp]: "jge (Fin a) (Fin b) = (b \<le> a)"
  by (simp add: jge_def)

lemma jgt_NaN_left [simp]: "jgt NaN y = False"
  by (cases y) (simp_all add: jgt_def)

lemma jgt_NaN_right [simp]: "jgt x NaN = False"
  by (simp add: jgt_def)

lemma jeq_Fin [simp]: "jeq (Fin a) (Fin b) = (a = b)"
  by (simp add: jeq_def)

lemma jeq_NaN [simp]: "jeq NaN y = False" "jeq x NaN = False"
  by (auto simp: jeq_def)

lemma jdiv_Fin_nz [simp]: "b \<noteq> 0 \<Longrightarrow> jdiv (Fin a) (Fin b) = Fin (a / b)"
  by simp

lemma jdiv_zero_zero [simp]: "jdiv (Fin 0) (Fin 0) = NaN"
  by (simp add: infOfSign_def)

section \<open>Basic facts about arrays\<close>

lemma rd_map_upt [simp]: "i < n \<Longrightarrow> rd (map f [0..<n]) i = f i"
  by (simp add: rd_def)

lemma rd_Fin [simp]: "i < length xs \<Longrightarrow> rd (map Fin xs) i = Fin (xs ! i)"
  by (simp add: rd_def)

lemma finBuffer_sel [simp]:
  "left (finBuffer l r sr) = map Fin l" "right (finBuffer l r sr) = map Fin r"
  by (simp_all add: finBuffer_def)

section \<open>Output length of the conversion\<close>

lemma length_foldl_enhanceStep: "length (foldl (enhanceStep ef) xs is) = length xs"
  by (induction "is" arbitrary: xs) (simp_all add: enhanceStep_def Let_def)

lemma length_enhanceHighFrequencies [simp]:
  "length (enhanceHighFrequencies conv samples h) = length samples"
  by (simp add: enhanceHighFrequencies_def Let_def length_foldl_enhanceStep)

lemma length_performIntelligentDownmix [simp]:
  "length (performIntelligentDownmix conv buffer analysis w) = length (left buffer)"
  by (simp add: performIntelligentDownmix_def)

lemma length_applyPreservationTechniques [simp]:
  "length (applyPreservationTechniques conv m buffer analysis) = length m"
  by (simp add: applyPreservationTechniques_def Let_def)

lemma length_normalizeTo [simp]: "length (normalizeTo samples t) = length samples"
  by (simp add: normalizeTo_def Let_def)

lemma length_applyVolumeCompensation [simp]:
  "length (applyVolumeCompensation conv samples analysis) = length samples"
  by (simp add: applyVolumeCompensation_def Let_def)

lemma length_softClip [simp]: "length (softClip samples t) = length samples"
  by (simp add: softClip_def)

text \<open>
  Claim C2. For every converter (any options, any network parameters) and every stereo
  buffer, \<open>convert\<close> returns a mono sequence, and its length is the length of the
  left channel, which for a valid buffer is the common channel length.
\<close>

theorem convert_length:
  "\<exists>out. convert conv buffer = Inr out \<and> length out = length (left buffer)"
  by (simp add: convert_def Let_def)

section \<open>The soft-clip primitive\<close>

lemma softClipSample_Fin:
  assumes "0 < t" "t < 1"
  shows "softClipSample (Fin t) (Fin x) =
           Fin (if \<bar>x\<bar> \<le> t then x else sgn x * (t + (1 - t) * tanh ((\<bar>x\<bar> - t) / (1 - t))))"
  using assms by (auto simp: softClipSample_def Let_def jge_def jsub_def sgn_real_def)

text \<open>
  Claim C8. For a threshold \<open>t\<close> strictly between 0 and 1 and real samples \<open>xs\<close>,
  \<open>softClip\<close> leaves a sample \<open>x\<close> with \<open>|x| \<le> t\<close> exactly as it is and maps every
  other sample to \<open>sign(x) * (t + (1 - t) * tanh((|x| - t) / (1 - t)))\<close>.
\<close>

theorem softClip_spec:
  assumes "0 < t" "t < 1"
  shows "softClip (map Fin xs) (Fin t) =
           map (\<lambda>x. Fin (if \<bar>x\<bar> \<le> t then x
                          else sgn x * (t + (1 - t) * tanh ((\<bar>x\<bar> - t) / (1 - t))))) xs"
  using assms by (auto simp: softClip_def softClipSample_Fin intro!: nth_equalityI)

theorem softClip_spec_witness:
  "(0::real) < 1/2 \<and> (1/2::real) < 1 \<and>
   softClip [Fin (1/4), Fin (- 2)] (Fin (1/2)) = [Fin (1/4), Fin (- (1/2 + 1/2 * tanh 3))]"
  using softClip_spec [of "1/2" "[1/4, - 2]"] by simp

section \<open>The analysis pass on real samples\<close>

lemma analysisStep_Fin:
  assumes "n < length l" "n < length r"
  shows "analysisStep (finBuffer l r sr)
           \<lparr> widthSum = Fin a, correlationSum = Fin b, leftPowerSum = Fin c,
             rightPowerSum = Fin d, rmsSum = Fin e, peakAcc = Fin p \<rparr> n =
         \<lparr> widthSum = Fin (a + \<bar>l ! n - r ! n\<bar>), correlationSum = Fin (b + l ! n * r ! n),
           leftPowerSum = Fin (c + l ! n * l ! n),
           rightPowerSum = Fin (d + r ! n * r ! n),
           rmsSum = Fin (e + ((l ! n + r ! n) / 2) * ((l ! n + r ! n) / 2)),
           peakAcc = Fin (max p (max \<bar>l ! n\<bar> \<bar>r ! n\<bar>)) \<rparr>"
  using assms by (simp add: analysisStep_def Let_def) (simp add: max_def)

lemma analysis_fold:
  assumes "length l = length r" "n \<le> length l"
  shows "foldl (analysisStep (finBuffer l r sr)) analysisInit [0..<n] =
           \<lparr> widthSum = Fin (\<Sum>i<n. \<bar>l ! i - r ! i\<bar>),
             correlationSum = Fin (\<Sum>i<n. l ! i * r ! i),
             leftPowerSum = Fin (\<Sum>i<n. l ! i * l ! i),
             rightPowerSum = Fin (\<Sum>i<n. r ! i * r ! i),
             rmsSum = Fin (\<Sum>i<n. ((l ! i + r ! i) / 2) * ((l ! i + r ! i) / 2)),
             peakAcc = Fin (peakOf l r n) \<rparr>"
  using assms(2)
proof (induction n)
  case 0
  then show ?case by (simp add: analysisInit_def)
next
  case (Suc n)
  then have lt: "n < length l" "n < length r" using assms(1) by simp_all
  from Suc have IH: "foldl (analysisStep (finBuffer l r sr)) analysisInit [0..<n] =
           \<lparr> widthSum = Fin (\<Sum>i<n. \<bar>l ! i - r ! i\<bar>),
             correlationSum = Fin (\<Sum>i<n. l ! i * r ! i),
             leftPowerSum = Fin (\<Sum>i<n. l ! i * l ! i),
             rightPowerSum = Fin (\<Sum>i<n. r ! i * r ! i),
             rmsSum = Fin (\<Sum>i<n. ((l ! i + r ! i) / 2) * ((l ! i + r ! i) / 2)),
             peakAcc = Fin (peakOf l r n) \<rparr>" by simp
  show ?case
    by (simp only: upt_Suc_append [OF le0] foldl_append foldl.simps IH analysisStep_Fin [OF lt]
          sum.lessThan_Suc peakOf.simps)
qed

section \<open>Phase correlation\<close>






section \<open>Frequency distribution\<close>

lemma freqStep_Fin:
  assumes "n < length l" "n < length r" "0 < n" "0 \<le> a" "0 \<le> b" "0 \<le> c"
  shows "\<exists>a' b' c'. freqStep (finBuffer l r sr) (Fin a, Fin b, Fin c) n = (Fin a', Fin b', Fin c')
           \<and> 0 \<le> a' \<and> 0 \<le> b' \<and> 0 \<le> c' \<and> a' + b' + c' = a + b + c + (\<bar>l ! n\<bar> + \<bar>r ! n\<bar>)"
  using assms by (simp add: freqStep_def Let_def)

lemma freq_fold:
  assumes "length l = length r" "n \<le> length l"
  shows "\<exists>a b c. foldl (freqStep (finBuffer l r sr)) (Fin 0, Fin 0, Fin 0) [1..<n] = (Fin a, Fin b, Fin c)
           \<and> 0 \<le> a \<and> 0 \<le> b \<and> 0 \<le> c \<and> a + b + c = (\<Sum>i = 1..<n. \<bar>l ! i\<bar> + \<bar>r ! i\<bar>)"
  using assms(2)
proof (induction n)
  case 0
  then show ?case by simp
next
  case (Suc n)
  show ?case
  proof (cases "n = 0")
    case True
    then show ?thesis by simp
  next
    case False
    then have pos: "0 < n" by simp
    from Suc obtain a b c where
      st: "foldl (freqStep (finBuffer l r sr)) (Fin 0, Fin 0, Fin 0) [1..<n] = (Fin a, Fin b, Fin c)"
      and nn: "0 \<le> a" "0 \<le> b" "0 \<le> c"
      and sm: "a + b + c = (\<Sum>i = 1..<n. \<bar>l ! i\<bar> + \<bar>r ! i\<bar>)"
      by auto
    from Suc.prems assms(1) have lt: "n < length l" "n < length r" by simp_all
    from freqStep_Fin [OF lt pos nn, of sr] obtain a' b' c' where
      st': "freqStep (finBuffer l r sr) (Fin a, Fin b, Fin c) n = (Fin a', Fin b', Fin c')"
      and nn': "0 \<le> a'" "0 \<le> b'" "0 \<le> c'"
      and sm': "a' + b' + c' = a + b + c + (\<bar>l ! n\<bar> + \<bar>r ! n\<bar>)"
      by blast
    have upt: "[1..<Suc n] = [1..<n] @ [n]" using pos by simp
    have "(\<Sum>i = 1..<Suc n. \<bar>l ! i\<bar> + \<bar>r ! i\<bar>) = a' + b' + c'"
      using pos sm sm' by (simp add: sum.atLeastLessThan_Suc)
    then show ?thesis
      using st st' nn' pos by (simp add: upt)
  qed
qed

lemma freqDist_ratios:
  assumes "length l = length r"
  shows "\<exists>lo mi hi.
           frequencyDistribution (analyzeStereo (finBuffer l r sr)) =
             \<lparr> low = Fin lo, mid = Fin mi, high = Fin hi \<rparr>
           \<and> 0 \<le> lo \<and> 0 \<le> mi \<and> 0 \<le> hi
           \<and> (0 < bandEnergy l r \<longrightarrow> lo + mi + hi = 1)
           \<and> (bandEnergy l r = 0 \<longrightarrow> lo = 0 \<and> mi = 0 \<and> hi = 0)"
proof -
  let ?n = "min (length l) 4096"
  from freq_fold [OF assms, of ?n sr] obtain a b c where
    st: "foldl (freqStep (finBuffer l r sr)) (Fin 0, Fin 0, Fin 0) [1..<?n] = (Fin a, Fin b, Fin c)"
    and nn: "0 \<le> a" "0 \<le> b" "0 \<le> c"
    and sm: "a + b + c = bandEnergy l r"
    by (auto simp: bandEnergy_def)
  show ?thesis
  proof (cases "0 < a + b + c")
    case True
    then have "a / (a + b + c) + b / (a + b + c) + c / (a + b + c) = 1"
      by (simp add: add_divide_distrib [symmetric])
    then show ?thesis
      using True st nn sm
      by (simp add: analyzeStereo_def analyzeFrequencyDistribution_def Let_def)
  next
    case False
    then show ?thesis
      using st nn sm
      by (simp add: analyzeStereo_def analyzeFrequencyDistribution_def Let_def)
  qed
qed

text \<open>
  Claim C6. For a buffer of real samples with channels of equal length, the three
  components of the frequency distribution are non-negative numbers; they sum to 1 when
  the energy summed over the analysed prefix is positive, and all three are 0 when it is 0.
\<close>

theorem frequencyDistribution_spec:
  assumes "length l = length r"
  shows "\<exists>lo mi hi.
           frequencyDistribution (analyzeStereo (finBuffer l r sr)) =
             \<lparr> low = Fin lo, mid = Fin mi, high = Fin hi \<rparr>
           \<and> 0 \<le> lo \<and> 0 \<le> mi \<and> 0 \<le> hi
           \<and> (0 < bandEnergy l r \<longrightarrow> lo + mi + hi = 1)
           \<and> (bandEnergy l r = 0 \<longrightarrow> lo = 0 \<and> mi = 0 \<and> hi = 0)"
  using assms by (rule freqDist_ratios)

theorem frequencyDistribution_spec_witness:
  "length [0, 1::real] = length [0, 1::real] \<and>
   0 < bandEnergy [0, 1] [0, 1] \<and>
   (\<exists>lo mi hi. frequencyDistribution (analyzeStereo (finBuffer [0, 1] [0, 1] (Fin 44100))) =
        \<lparr> low = Fin lo, mid = Fin mi, high = Fin hi \<rparr> \<and> lo + mi + hi = 1)"
proof -
  have e: "bandEnergy [0, 1] [0, 1] = 2"
    by (simp add: bandEnergy_def)
  show ?thesis
    using frequencyDistribution_spec [of "[0, 1]" "[0, 1]" "Fin 44100"] e by auto
qed

section \<open>Buffers shorter than the analysis windows\<close>

lemma richnessLoop_stop:
  "\<not> int i < int len - 256 \<Longrightarrow> richnessLoop buffer len i h = h"
  by (subst richnessLoop.simps) simp

lemma numWindows_Fin: "numWindows len = Fin (of_int \<lfloor>(real_of_int (int len - 256)) / 128\<rfloor> * 2)"
  by (simp add: numWindows_def)

lemma numWindows_short:
  assumes "len < 256"
  shows "\<exists>w. numWindows len = Fin w \<and> w < 0"
proof -
  have "real_of_int (int len - 256) / 128 < 0" using assms by simp
  then have "\<lfloor>real_of_int (int len - 256) / 128\<rfloor> < 0" by (simp only: floor_less_zero)
  then have "real_of_int \<lfloor>real_of_int (int len - 256) / 128\<rfloor> * 2 < 0" by simp
  then show ?thesis by (simp only: numWindows_Fin) blast
qed

text \<open>
  For channels of equal length between 1 and 255 the window loop of the richness
  computation does not run and leaves the harmonic sum at 0, the window count it divides
  by is not 0, the richness is the number 0, and the three frequency ratios are finite.
\<close>

lemma short_buffer_analysis:
  assumes "length l = length r" "0 < length l" "length l < 256"
  shows "numWindows (min (length l) 8192) \<noteq> Fin 0
         \<and> richnessLoop (finBuffer l r sr) (min (length l) 8192) 0 (Fin 0) = Fin 0
         \<and> richness (analyzeStereo (finBuffer l r sr)) = Fin 0
         \<and> (\<exists>lo mi hi. frequencyDistribution (analyzeStereo (finBuffer l r sr)) =
                \<lparr> low = Fin lo, mid = Fin mi, high = Fin hi \<rparr>)"
proof -
  let ?len = "min (length l) 8192"
  have len: "?len < 256" using assms(3) by simp
  from numWindows_short [OF len] obtain w where w: "numWindows ?len = Fin w" "w < 0" by blast
  have stop: "richnessLoop (finBuffer l r sr) ?len 0 (Fin 0) = Fin 0"
    using len by (intro richnessLoop_stop) simp
  have "calculateRichness (finBuffer l r sr) = Fin 0"
    using w stop by (simp add: calculateRichness_def Let_def)
  then have "richness (analyzeStereo (finBuffer l r sr)) = Fin 0"
    by (simp add: analyzeStereo_def Let_def)
  moreover from freqDist_ratios [OF assms(1), of sr]
  have "\<exists>lo mi hi. frequencyDistribution (analyzeStereo (finBuffer l r sr)) =
                \<lparr> low = Fin lo, mid = Fin mi, high = Fin hi \<rparr>" by blast
  ultimately show ?thesis using w stop by auto
qed

section \<open>The weight mapper\<close>

lemma isFin_conv: "isFin x \<longleftrightarrow> (\<exists>a. x = Fin a)"
  by (cases x) simp_all

lemma isFin_jmul [simp]: "isFin x \<Longrightarrow> isFin y \<Longrightarrow> isFin (jmul x y)"
  by (auto simp: isFin_conv)

lemma isFin_jadd [simp]: "isFin x \<Longrightarrow> isFin y \<Longrightarrow> isFin (jadd x y)"
  by (auto simp: isFin_conv)

lemma isFin_jsub [simp]: "isFin x \<Longrightarrow> isFin y \<Longrightarrow> isFin (jsub x y)"
  by (auto simp: isFin_conv)

lemma isFin_jmax [simp]: "isFin x \<Longrightarrow> isFin y \<Longrightarrow> isFin (jmax x y)"
  by (auto simp: isFin_conv)

lemma map_Fin_val: "\<forall>x \<in> set xs. isFin x \<Longrightarrow> map Fin (map val xs) = xs"
  by (induction xs) (auto simp: isFin_conv)

lemma createLayer_finite:
  assumes "0 < nin + nout"
  shows "finiteLayer nin nout (fst (createLayer rnd k nin nout isOutput))"
proof -
  have "\<not> 2 / (real nin + real nout) < 0"
    using assms by (simp add: not_less)
  then show ?thesis
    by (auto simp: finiteLayer_def createLayer_def Let_def)
qed

lemma snd_createLayer: "snd (createLayer rnd k nin nout isOutput) = k + nout * nin + nout"
  by (simp add: createLayer_def Let_def)

lemma optimizeLayer_finite:
  assumes "finiteLayer nin nout layer"
  shows "finiteLayer nin nout (optimizeLayer layer)"
  using assms by (auto simp: finiteLayer_def optimizeLayer_def rd_def)

lemma model_shape:
  "\<exists>l1 l2 l3. createPretrainedAudioModel rnd = [l1, l2, l3] \<and>
     finiteLayer 8 16 l1 \<and> finiteLayer 16 8 l2 \<and> finiteLayer 8 4 l3"
proof -
  obtain a1 k1 where c1: "createLayer rnd 0 8 16 False = (a1, k1)" by fastforce
  obtain a2 k2 where c2: "createLayer rnd k1 16 8 False = (a2, k2)" by fastforce
  obtain a3 k3 where c3: "createLayer rnd k2 8 4 True = (a3, k3)" by fastforce
  have f1: "finiteLayer 8 16 a1" using createLayer_finite [of 8 16 rnd 0 False] c1 by simp
  have f2: "finiteLayer 16 8 a2" using createLayer_finite [of 16 8 rnd k1 False] c2 by simp
  have f3: "finiteLayer 8 4 a3" using createLayer_finite [of 8 4 rnd k2 True] c3 by simp
  have "createPretrainedAudioModel rnd = [optimizeLayer a1, optimizeLayer a2, optimizeLayer a3]"
    by (simp add: createPretrainedAudioModel_def newNeuralNetwork_def
          optimizeForAudioPreservation_def c1 c2 c3)
  then show ?thesis
    using f1 f2 f3 by (simp add: optimizeLayer_finite)
qed

lemma neuronSum_fold_Fin:
  assumes "length w = length xs" "\<forall>x \<in> set w. isFin x" "n \<le> length xs"
  shows "isFin (foldl (\<lambda>sum j. jadd sum (jmul (rd (map Fin xs) j) (rd w j))) (Fin b) [0..<n])"
  using assms(3)
proof (induction n)
  case 0
  then show ?case by simp
next
  case (Suc n)
  then have "n < length w" using assms(1) by simp
  then have "isFin (rd w n)" using assms(2) by (simp add: rd_def)
  with Suc show ?case by simp
qed

lemma neuronSum_Fin:
  assumes "length w = length xs" "\<forall>x \<in> set w. isFin x"
  shows "isFin (neuronSum (map Fin xs) w (Fin b))"
  using neuronSum_fold_Fin [OF assms, of "length xs" b] by (simp add: neuronSum_def)

lemma activate_Fin:
  "act = Relu \<or> act = Linear \<Longrightarrow> isFin x \<Longrightarrow> isFin (activate x act)"
  by (auto simp: isFin_conv)

lemma forwardLayer_Fin:
  assumes "finiteLayer nin nout layer" "length xs = nin"
  shows "\<exists>ys. forwardLayer (map Fin xs) layer = map Fin ys \<and> length ys = nout"
proof -
  have "\<forall>y \<in> set (forwardLayer (map Fin xs) layer). isFin y"
  proof
    fix y assume "y \<in> set (forwardLayer (map Fin xs) layer)"
    then obtain i where i: "i < length (weights layer)"
      and y: "y = activate (neuronSum (map Fin xs) (weights layer ! i) (rd (biases layer) i))
                    (activation layer)"
      by (auto simp: forwardLayer_def)
    have w: "length (weights layer ! i) = length xs" "\<forall>x \<in> set (weights layer ! i). isFin x"
      using assms i by (auto simp: finiteLayer_def)
    have "isFin (rd (biases layer) i)"
      using assms i by (auto simp: finiteLayer_def rd_def)
    then obtain b where b: "rd (biases layer) i = Fin b" by (auto simp: isFin_conv)
    show "isFin y"
      using assms(1) neuronSum_Fin [OF w, of b] by (simp add: y b activate_Fin finiteLayer_def)
  qed
  then have "map Fin (map val (forwardLayer (map Fin xs) layer)) = forwardLayer (map Fin xs) layer"
    by (rule map_Fin_val)
  moreover have "length (forwardLayer (map Fin xs) layer) = nout"
    using assms(1) by (simp add: forwardLayer_def finiteLayer_def)
  ultimately show ?thesis
    by (metis length_map)
qed

lemma forward_model_Fin:
  assumes "length xs = 8"
  shows "\<exists>ys. forward (createPretrainedAudioModel rnd) (map Fin xs) = map Fin ys \<and> length ys = 4"
proof -
  from model_shape [of rnd] obtain l1 l2 l3 where
    m: "createPretrainedAudioModel rnd = [l1, l2, l3]"
    and f: "finiteLayer 8 16 l1" "finiteLayer 16 8 l2" "finiteLayer 8 4 l3" by blast
  from forwardLayer_Fin [OF f(1) assms] obtain y1 where
    y1: "forwardLayer (map Fin xs) l1 = map Fin y1" "length y1 = 16" by blast
  from forwardLayer_Fin [OF f(2) y1(2)] obtain y2 where
    y2: "forwardLayer (map Fin y1) l2 = map Fin y2" "length y2 = 8" by blast
  from forwardLayer_Fin [OF f(3) y2(2)] obtain y3 where
    y3: "forwardLayer (map Fin y2) l3 = map Fin y3" "length y3 = 4" by blast
  have "forward (createPretrainedAudioModel rnd) (map Fin xs) = map Fin y3"
    using y1 y2 y3 by (simp add: forward_def m)
  then show ?thesis using y3(2) by blast
qed

lemma clamp_feature:
  "x \<noteq> NaN \<Longrightarrow> jmax (Fin 0) (jmin (Fin 1) x) = Fin (clamp01 x)"
  by (cases x) (simp_all add: jmin_def jmax_def)

lemma list4: "length ys = 4 \<Longrightarrow> ys = [ys ! 0, ys ! 1, ys ! 2, ys ! 3]"
  by (auto intro!: nth_equalityI simp: nth_Cons' numeral_eq_Suc less_Suc_eq)

lemma clamp_range:
  fixes lo hi x :: real
  assumes "lo \<le> hi"
  shows "lo \<le> max lo (min hi x)" "max lo (min hi x) \<le> hi"
  using assms by (simp_all add: max_def min_def)

lemma processFeatures_clamped:
  assumes "length fs = 8" "NaN \<notin> set fs"
  shows "\<exists>raw0 raw1 raw2 raw3 w0 w1 w2 w3.
           forward (createPretrainedAudioModel rnd) (map (\<lambda>x. Fin (clamp01 x)) fs) =
             [Fin raw0, Fin raw1, Fin raw2, Fin raw3]
           \<and> processFeatures (createPretrainedAudioModel rnd) fs = [Fin w0, Fin w1, Fin w2, Fin w3]
           \<and> w0 = max (3/10) (min (7/10) (1/2 + raw0 * (2/10)))
           \<and> w1 = max (3/10) (min (7/10) (1/2 + raw1 * (2/10)))
           \<and> w2 = max 0 (min (1/2) raw2)
           \<and> w3 = max 0 (min (3/10) raw3)
           \<and> 3/10 \<le> w0 \<and> w0 \<le> 7/10 \<and> 3/10 \<le> w1 \<and> w1 \<le> 7/10
           \<and> 0 \<le> w2 \<and> w2 \<le> 1/2 \<and> 0 \<le> w3 \<and> w3 \<le> 3/10"
proof -
  have norm: "map (\<lambda>i. jmax (Fin 0) (jmin (Fin 1) (rd fs i))) [0..<length fs] =
              map Fin (map clamp01 fs)"
  proof (rule nth_equalityI)
    show "length (map (\<lambda>i. jmax (Fin 0) (jmin (Fin 1) (rd fs i))) [0..<length fs]) =
          length (map Fin (map clamp01 fs))" by simp
  next
    fix i assume "i < length (map (\<lambda>i. jmax (Fin 0) (jmin (Fin 1) (rd fs i))) [0..<length fs])"
    then have i: "i < length fs" by simp
    then have "fs ! i \<noteq> NaN" using assms(2) by (metis nth_mem)
    then show "map (\<lambda>i. jmax (Fin 0) (jmin (Fin 1) (rd fs i))) [0..<length fs] ! i =
               map Fin (map clamp01 fs) ! i"
      using i by (simp add: rd_def clamp_feature)
  qed
  from forward_model_Fin [of "map clamp01 fs" rnd] assms(1) obtain ys where
    ys: "forward (createPretrainedAudioModel rnd) (map Fin (map clamp01 fs)) = map Fin ys"
    and len: "length ys = 4" by auto
  have ys4: "ys = [ys ! 0, ys ! 1, ys ! 2, ys ! 3]" using len by (rule list4)
  have "map Fin ys = map Fin [ys ! 0, ys ! 1, ys ! 2, ys ! 3]"
    using ys4 by (rule arg_cong)
  then have m4: "map Fin ys = [Fin (ys ! 0), Fin (ys ! 1), Fin (ys ! 2), Fin (ys ! 3)]"
    by (simp only: list.map)
  have mm: "map (\<lambda>x. Fin (clamp01 x)) fs = map Fin (map clamp01 fs)"
    by simp
  have fw: "forward (createPretrainedAudioModel rnd) (map (\<lambda>x. Fin (clamp01 x)) fs) =
              [Fin (ys ! 0), Fin (ys ! 1), Fin (ys ! 2), Fin (ys ! 3)]"
    by (simp only: mm ys m4)
  have r: "rd (map Fin ys) 0 = Fin (ys ! 0)" "rd (map Fin ys) 1 = Fin (ys ! 1)"
          "rd (map Fin ys) 2 = Fin (ys ! 2)" "rd (map Fin ys) 3 = Fin (ys ! 3)"
    using len by (simp_all add: rd_def)
  have pf: "processFeatures (createPretrainedAudioModel rnd) fs =
      [Fin (max (3/10) (min (7/10) (1/2 + ys ! 0 * (2/10)))),
       Fin (max (3/10) (min (7/10) (1/2 + ys ! 1 * (2/10)))),
       Fin (max 0 (min (1/2) (ys ! 2))),
       Fin (max 0 (min (3/10) (ys ! 3)))]"
    unfolding processFeatures_def Let_def norm ys r by simp
  show ?thesis
    apply (rule exI [where x = "ys ! 0"])
    apply (rule exI [where x = "ys ! 1"])
    apply (rule exI [where x = "ys ! 2"])
    apply (rule exI [where x = "ys ! 3"])
    apply (rule exI [where x = "max (3/10) (min (7/10) (1/2 + ys ! 0 * (2/10)))"])
    apply (rule exI [where x = "max (3/10) (min (7/10) (1/2 + ys ! 1 * (2/10)))"])
    apply (rule exI [where x = "max 0 (min (1/2) (ys ! 2))"])
    apply (rule exI [where x = "max 0 (min (3/10) (ys ! 3))"])
    apply (simp only: fw pf)
    apply (intro conjI refl)
           apply (rule clamp_range, simp)+
    done
qed







section \<open>The silent buffer\<close>

lemma silentBuffer_finBuffer: "silentBuffer n = finBuffer (replicate n 0) (replicate n 0) (Fin 44100)"
  by (simp add: silentBuffer_def finBuffer_def)

lemma silentBuffer_sel [simp]:
  "left (silentBuffer n) = replicate n (Fin 0)" "right (silentBuffer n) = replicate n (Fin 0)"
  by (simp_all add: silentBuffer_def)

lemma peakOf_silent: "m \<le> n \<Longrightarrow> peakOf (replicate n 0) (replicate n 0) m = 0"
  by (induction m) simp_all

lemma sum_silent: "(\<Sum>i<n. f (replicate n (0::real) ! i)) = (\<Sum>i<n. f 0)"
  by (rule sum.cong) simp_all

lemma harmonic_fold_silent:
  "m \<le> n \<Longrightarrow> foldl (harmonicStep (replicate n (Fin 0))) (Fin 0, 0) [0..<m] = (Fin 0, 0)"
  by (induction m) (simp_all add: harmonicStep_def Let_def rd_def)

lemma calculateHarmonicContent_silent:
  "0 < n \<Longrightarrow> calculateHarmonicContent (replicate n (Fin 0)) = Fin 0"
  by (simp add: calculateHarmonicContent_def Let_def harmonic_fold_silent)

lemma richnessLoop_silent:
  "len \<le> n \<Longrightarrow> richnessLoop (silentBuffer n) len i (Fin 0) = Fin 0"
proof (induction "silentBuffer n" len i "Fin 0" rule: richnessLoop.induct)
  case (1 len i)
  show ?case
  proof (cases "int i < int len - 256")
    case True
    then have "slice (replicate n (Fin 0)) i (i + 256) = replicate 256 (Fin 0)"
      using "1.prems" by (simp add: slice_def min_def)
    then have h: "jadd (jadd (Fin 0) (calculateHarmonicContent (slice (left (silentBuffer n)) i (i + 256))))
                   (calculateHarmonicContent (slice (right (silentBuffer n)) i (i + 256))) = Fin 0"
      by (simp add: calculateHarmonicContent_silent)
    show ?thesis
      using True "1.hyps" [OF True h] "1.prems" h
      by (subst richnessLoop.simps) simp
  next
    case False
    then show ?thesis by (simp add: richnessLoop_stop)
  qed
qed

lemma freq_fold_silent:
  "m \<le> n \<Longrightarrow>
     foldl (freqStep (silentBuffer n)) (Fin 0, Fin 0, Fin 0) [Suc 0..<m] = (Fin 0, Fin 0, Fin 0)"
proof (induction m)
  case 0
  then show ?case by simp
next
  case (Suc m)
  show ?case
  proof (cases "m = 0")
    case True
    then show ?thesis by simp
  next
    case False
    then have "[Suc 0..<Suc m] = [Suc 0..<m] @ [m]" by simp
    then show ?thesis
      using Suc False by (simp add: freqStep_def Let_def rd_def)
  qed
qed

lemma analysis_fold_silent:
  "foldl (analysisStep (silentBuffer n)) analysisInit [0..<n] = analysisInit"
  using analysis_fold [of "replicate n 0" "replicate n 0" n "Fin 44100"]
  by (simp add: silentBuffer_finBuffer sum_silent peakOf_silent analysisInit_def)

lemma numWindows_1000: "numWindows (min 1000 8192) = Fin 10"
  by (simp add: numWindows_Fin)

lemma analyzeStereo_silent: "analyzeStereo (silentBuffer 1000) = silentAnalysis"
proof -
  have "calculateRichness (silentBuffer 1000) = Fin 0"
    using numWindows_1000 by (simp add: calculateRichness_def Let_def richnessLoop_silent)
  moreover have "analyzeFrequencyDistribution (silentBuffer 1000) =
                   \<lparr> low = Fin 0, mid = Fin 0, high = Fin 0 \<rparr>"
    by (simp add: analyzeFrequencyDistribution_def Let_def freq_fold_silent)
  moreover have "foldl (analysisStep (silentBuffer 1000)) analysisInit
                   [0..<length (left (silentBuffer 1000))] = analysisInit"
    using analysis_fold_silent [of 1000] by simp
  ultimately show ?thesis
    by (simp add: analyzeStereo_def Let_def silentAnalysis_def analysisInit_def)
qed

lemma mixingWeights_silent:
  "\<exists>w0 w1 w2 w3. calculateMixingWeights (newConverter rnd opts) silentAnalysis =
      [Fin w0, Fin w1, Fin w2, Fin w3]"
proof -
  let ?fs = "[Fin 0, Fin 0, Fin 0, Fin 0, Fin (1/2), Fin 0, Fin 0, Fin 0]"
  have "length ?fs = 8" "NaN \<notin> set ?fs" by simp_all
  from processFeatures_clamped [OF this, of rnd]
  have "\<exists>w0 w1 w2 w3. processFeatures (createPretrainedAudioModel rnd) ?fs =
          [Fin w0, Fin w1, Fin w2, Fin w3]" by blast
  then show ?thesis
    by (simp add: calculateMixingWeights_def newConverter_def silentAnalysis_def)
qed

lemma downmixSample_silent:
  assumes "isFin (preserveWidth opts)"
  shows "downmixSample opts [Fin w0, Fin w1, Fin w2, Fin w3] (Fin 0) (Fin 0) = Fin 0"
proof -
  from assms obtain p where "preserveWidth opts = Fin p" by (auto simp: isFin_conv)
  then show ?thesis by (simp add: downmixSample_def Let_def rd_def)
qed

lemma downmix_silent:
  assumes "isFin (preserveWidth (options conv))"
  shows "performIntelligentDownmix conv (silentBuffer n) a [Fin w0, Fin w1, Fin w2, Fin w3] =
           replicate n (Fin 0)"
  using assms
  by (auto intro!: nth_equalityI simp: performIntelligentDownmix_def rd_def downmixSample_silent)

lemma preservation_silent:
  "applyPreservationTechniques conv m buffer silentAnalysis = m"
  by (simp add: applyPreservationTechniques_def Let_def silentAnalysis_def)

lemma rms_fold_silent:
  "m \<le> n \<Longrightarrow>
     foldl (\<lambda>sum i. jadd sum (jmul (rd (replicate n (Fin 0)) i) (rd (replicate n (Fin 0)) i)))
       (Fin 0) [0..<m] = Fin 0"
  by (induction m) (simp_all add: rd_def)

lemma calculateRMS_silent: "0 < n \<Longrightarrow> calculateRMS (replicate n (Fin 0)) = Fin 0"
  by (simp add: calculateRMS_def rms_fold_silent)

lemma volume_silent:
  "0 < n \<Longrightarrow> applyVolumeCompensation conv (replicate n (Fin 0)) a = replicate n (Fin 0)"
  by (simp add: applyVolumeCompensation_def Let_def normalizeTo_def calculateRMS_silent)

lemma softClip_silent: "0 \<le> t \<Longrightarrow> softClip (replicate n (Fin 0)) (Fin t) = replicate n (Fin 0)"
  by (auto intro!: nth_equalityI simp: softClip_def softClipSample_def rd_def)

text \<open>
  Claim C3. For two all-zero channels of 1000 samples at 44100 Hz, \<open>analyze\<close> returns
  width, richness, RMS level, peak level and phase correlation 0 and the frequency
  distribution \<open>(0, 0, 0)\<close>, and \<open>convert\<close> returns 1000 samples that are all the
  number 0, for every outcome of the random initialisation and all options whose
  \<open>preserveWidth\<close> is a finite number (the default options among them).
\<close>

theorem silent_buffer:
  assumes "isFin (preserveWidth (resolveOptions opts))"
  shows "analyze (newConverter rnd opts) (silentBuffer 1000) = Inr silentAnalysis
         \<and> convert (newConverter rnd opts) (silentBuffer 1000) = Inr (replicate 1000 (Fin 0))"
proof -
  from mixingWeights_silent [of rnd opts] obtain w0 w1 w2 w3 where
    w: "calculateMixingWeights (newConverter rnd opts) silentAnalysis =
          [Fin w0, Fin w1, Fin w2, Fin w3]" by blast
  have p: "isFin (preserveWidth (options (newConverter rnd opts)))"
    using assms by (simp add: newConverter_def)
  have "convert (newConverter rnd opts) (silentBuffer 1000) = Inr (replicate 1000 (Fin 0))"
    by (simp add: convert_def Let_def analyzeStereo_silent w downmix_silent [OF p]
          preservation_silent volume_silent softClip_silent)
  then show ?thesis
    by (simp add: analyze_def analyzeStereo_silent)
qed

theorem silent_buffer_witness:
  "isFin (preserveWidth (resolveOptions noOptions))
   \<and> analyze (newConverter midRandom noOptions) (silentBuffer 1000) = Inr silentAnalysis
   \<and> convert (newConverter midRandom noOptions) (silentBuffer 1000) = Inr (replicate 1000 (Fin 0))"
proof -
  have h: "isFin (preserveWidth (resolveOptions noOptions))"
    by (simp add: resolveOptions_def noOptions_def)
  show ?thesis
    using h silent_buffer [OF h, of midRandom] by simp
qed

section \<open>Buffers that are not valid\<close>

lemma infOfSign_0 [simp]: "infOfSign 0 = NaN"
  by (simp add: infOfSign_def)

lemma analysisStep_NaN_keep:
  assumes "widthSum a = NaN" "rmsSum a = NaN"
  shows "widthSum (analysisStep buffer a i) = NaN \<and> rmsSum (analysisStep buffer a i) = NaN"
  using assms by (simp add: analysisStep_def Let_def)

lemma analysis_fold_NaN_keep:
  assumes "widthSum a = NaN" "rmsSum a = NaN"
  shows "widthSum (foldl (analysisStep buffer) a is) = NaN
         \<and> rmsSum (foldl (analysisStep buffer) a is) = NaN"
  using assms by (induction "is" arbitrary: a) (simp_all add: analysisStep_NaN_keep)

lemma analysisStep_NaN_right:
  assumes "rd (right buffer) i = NaN"
  shows "widthSum (analysisStep buffer a i) = NaN \<and> rmsSum (analysisStep buffer a i) = NaN"
  using assms by (simp add: analysisStep_def Let_def)

lemma analysis_fold_NaN:
  assumes "j < n" "rd (right buffer) j = NaN"
  shows "widthSum (foldl (analysisStep buffer) a [0..<n]) = NaN
         \<and> rmsSum (foldl (analysisStep buffer) a [0..<n]) = NaN"
proof -
  have "[0..<j + (n - j)] = [0..<j] @ [j..<j + (n - j)]"
    by (rule upt_add_eq_append) simp
  moreover have "[j..<n] = j # [Suc j..<n]"
    using assms(1) by (rule upt_conv_Cons)
  ultimately have "[0..<n] = [0..<j] @ j # [Suc j..<n]"
    using assms(1) by simp
  then show ?thesis
    using analysis_fold_NaN_keep [OF conjunct1 [OF analysisStep_NaN_right [OF assms(2)]]
                                     conjunct2 [OF analysisStep_NaN_right [OF assms(2)]]]
    by simp
qed

lemma analyzeStereo_short_right:
  assumes "length (right buffer) < length (left buffer)"
  shows "width (analyzeStereo buffer) = NaN \<and> rmsLevel (analyzeStereo buffer) = NaN"
proof -
  have "rd (right buffer) (length (right buffer)) = NaN" by (simp add: rd_def)
  from analysis_fold_NaN [OF assms this, of analysisInit]
  show ?thesis by (simp add: analyzeStereo_def Let_def)
qed

lemma analyzeStereo_empty_left:
  assumes "length (left buffer) = 0"
  shows "width (analyzeStereo buffer) = NaN \<and> rmsLevel (analyzeStereo buffer) = NaN"
  using assms by (simp add: analyzeStereo_def Let_def analysisInit_def)

lemma convert_returns:
  "\<exists>out. convert conv buffer = Inr out \<and> length out = length (left buffer)"
  by (simp add: convert_def Let_def)

text \<open>
  Claim C1, as amended. \<open>convert\<close> and \<open>analyze\<close> validate nothing and raise nothing:
  on a buffer whose channels differ in length or are empty both return a value.
  \<open>convert\<close> returns as many samples as the left channel has, and when the left channel
  is empty or longer than the right one the width and the RMS level that \<open>analyze\<close>
  returns are \<open>NaN\<close>.
\<close>

theorem invalid_buffer_returns:
  assumes "length (left buffer) \<noteq> length (right buffer) \<or> length (left buffer) = 0"
  shows "(\<exists>a. analyze conv buffer = Inr a
            \<and> (length (left buffer) = 0 \<or> length (right buffer) < length (left buffer)
                 \<longrightarrow> width a = NaN \<and> rmsLevel a = NaN))
         \<and> (\<exists>out. convert conv buffer = Inr out \<and> length out = length (left buffer))"
  using analyzeStereo_short_right [of buffer] analyzeStereo_empty_left [of buffer]
    convert_returns [of conv buffer]
  by (auto simp: analyze_def)

lemma analyzeStereo_emptyBuffer:
  "analyzeStereo emptyBuffer =
     \<lparr> width = NaN, richness = Fin 0, rmsLevel = NaN, peakLevel = Fin 0,
       phaseCorrelation = Fin 0,
       frequencyDistribution = \<lparr> low = Fin 0, mid = Fin 0, high = Fin 0 \<rparr> \<rparr>"
  by (simp add: analyzeStereo_def Let_def emptyBuffer_def analysisInit_def calculateRichness_def
        richnessLoop_stop numWindows_Fin analyzeFrequencyDistribution_def)

theorem invalid_buffer_returns_witness:
  "length (left emptyBuffer) = 0
   \<and> analyze defaultConverter emptyBuffer = Inr (analyzeStereo emptyBuffer)
   \<and> width (analyzeStereo emptyBuffer) = NaN
   \<and> convert defaultConverter emptyBuffer = Inr []"
  using invalid_buffer_returns [of emptyBuffer defaultConverter]
  by (auto simp: emptyBuffer_def analyze_def)

theorem empty_buffer_counterexample:
  "analyze defaultConverter emptyBuffer \<noteq> Inl ValidationError
   \<and> analyze defaultConverter emptyBuffer =
       Inr \<lparr> width = NaN, richness = Fin 0, rmsLevel = NaN, peakLevel = Fin 0,
             phaseCorrelation = Fin 0,
             frequencyDistribution = \<lparr> low = Fin 0, mid = Fin 0, high = Fin 0 \<rparr> \<rparr>
   \<and> convert defaultConverter emptyBuffer = Inr []"
proof -
  from convert_returns [of defaultConverter emptyBuffer] obtain out where
    "convert defaultConverter emptyBuffer = Inr out" "length out = length (left emptyBuffer)"
    by blast
  then have "convert defaultConverter emptyBuffer = Inr []"
    by (simp add: emptyBuffer_def)
  then show ?thesis
    by (simp add: analyze_def analyzeStereo_emptyBuffer)
qed

section \<open>Buffers of exactly 256 samples\<close>

lemma numWindows_256: "numWindows (min 256 8192) = Fin 0"
  by (simp add: numWindows_Fin)

lemma calculateRichness_256:
  assumes "length (left buffer) = 256"
  shows "calculateRichness buffer = NaN"
  using assms numWindows_256 by (simp add: calculateRichness_def Let_def richnessLoop_stop)

lemma analyzeStereo_silent_any:
  assumes "0 < n"
  shows "analyzeStereo (silentBuffer n) = silentAnalysis \<lparr> richness := calculateRichness (silentBuffer n) \<rparr>"
proof -
  have "analyzeFrequencyDistribution (silentBuffer n) = \<lparr> low = Fin 0, mid = Fin 0, high = Fin 0 \<rparr>"
    by (simp add: analyzeFrequencyDistribution_def Let_def freq_fold_silent)
  moreover have "foldl (analysisStep (silentBuffer n)) analysisInit
                   [0..<length (left (silentBuffer n))] = analysisInit"
    using analysis_fold_silent [of n] by simp
  ultimately show ?thesis
    using assms by (simp add: analyzeStereo_def Let_def silentAnalysis_def analysisInit_def)
qed

lemma foldl_jadd_NaN: "foldl (\<lambda>sum j. jadd sum (g j)) NaN js = NaN"
  by (induction js) simp_all

lemma foldl_jadd_NaN_elem:
  assumes "j < n" "g j = NaN"
  shows "foldl (\<lambda>sum j. jadd sum (g j)) b [0..<n] = NaN"
proof -
  have "[0..<j + (n - j)] = [0..<j] @ [j..<j + (n - j)]"
    by (rule upt_add_eq_append) simp
  moreover have "[j..<n] = j # [Suc j..<n]"
    using assms(1) by (rule upt_conv_Cons)
  ultimately have "[0..<n] = [0..<j] @ j # [Suc j..<n]"
    using assms(1) by simp
  then show ?thesis
    using assms(2) by (simp add: foldl_jadd_NaN)
qed

lemma neuronSum_NaN:
  assumes "NaN \<in> set input"
  shows "neuronSum input w b = NaN"
proof -
  from assms obtain j where j: "j < length input" "input ! j = NaN"
    by (auto simp: in_set_conv_nth)
  then have "jmul (rd input j) (rd w j) = NaN" by (simp add: rd_def)
  with j(1) show ?thesis
    unfolding neuronSum_def by (rule foldl_jadd_NaN_elem)
qed

lemma activate_NaN: "activate NaN act = NaN"
  by (cases act) simp_all

lemma forwardLayer_NaN:
  assumes "NaN \<in> set input"
  shows "forwardLayer input layer = replicate (length (weights layer)) NaN"
  using assms
  by (auto intro!: nth_equalityI simp: forwardLayer_def neuronSum_NaN activate_NaN)

lemma forward_model_NaN:
  assumes "NaN \<in> set input"
  shows "forward (createPretrainedAudioModel rnd) input = [NaN, NaN, NaN, NaN]"
proof -
  from model_shape [of rnd] obtain l1 l2 l3 where
    m: "createPretrainedAudioModel rnd = [l1, l2, l3]"
    and f: "finiteLayer 8 16 l1" "finiteLayer 16 8 l2" "finiteLayer 8 4 l3" by blast
  have len: "length (weights l1) = 16" "length (weights l2) = 8" "length (weights l3) = 4"
    using f by (simp_all add: finiteLayer_def)
  have 1: "forwardLayer input l1 = replicate 16 NaN"
    using forwardLayer_NaN [OF assms, of l1] len by simp
  have 2: "forwardLayer (replicate 16 NaN) l2 = replicate 8 NaN"
    using forwardLayer_NaN [of "replicate 16 NaN" l2] len by simp
  have 3: "forwardLayer (replicate 8 NaN) l3 = replicate 4 NaN"
    using forwardLayer_NaN [of "replicate 8 NaN" l3] len by simp
  have "forward (createPretrainedAudioModel rnd) input = replicate 4 NaN"
    by (simp only: forward_def m foldl.simps 1 2 3)
  then show ?thesis by (simp add: numeral_eq_Suc)
qed

lemma processFeatures_NaN:
  assumes "NaN \<in> set fs"
  shows "processFeatures (createPretrainedAudioModel rnd) fs = [NaN, NaN, NaN, NaN]"
proof -
  from assms obtain j where j: "j < length fs" "fs ! j = NaN"
    by (auto simp: in_set_conv_nth)
  have "jmax (Fin 0) (jmin (Fin 1) (rd fs j)) = NaN"
    using j by (simp add: rd_def)
  moreover have "j \<in> set [0..<length fs]" using j(1) by simp
  ultimately have "NaN \<in> set (map (\<lambda>i. jmax (Fin 0) (jmin (Fin 1) (rd fs i))) [0..<length fs])"
    by (metis (no_types, lifting) image_eqI set_map)
  then have "forward (createPretrainedAudioModel rnd)
               (map (\<lambda>i. jmax (Fin 0) (jmin (Fin 1) (rd fs i))) [0..<length fs]) =
             [NaN, NaN, NaN, NaN]"
    by (rule forward_model_NaN)
  then show ?thesis
    unfolding processFeatures_def Let_def by (simp add: rd_def)
qed

text \<open>
  Claim C7 says that for every vector of 8 features the weight mapper returns entries
  clamped to \<open>[0.3, 0.7]\<close>, \<open>[0.3, 0.7]\<close>, \<open>[0, 0.5]\<close> and \<open>[0, 0.3]\<close>. It fails on the
  feature vector that \<open>convert\<close> builds for 256 zero samples, whose richness is
  \<open>NaN\<close>: \<open>Math.min\<close> and \<open>Math.max\<close> pass the \<open>NaN\<close> on, and all four entries of the
  result are \<open>NaN\<close>.
\<close>

theorem processFeatures_nan_feature:
  "processFeatures (createPretrainedAudioModel midRandom)
     [Fin 0, NaN, Fin 0, Fin 0, Fin (1/2), Fin 0, Fin 0, Fin 0] = [NaN, NaN, NaN, NaN]"
  by (rule processFeatures_NaN) simp

lemma mixingWeights_NaN_richness:
  assumes "richness a = NaN"
  shows "calculateMixingWeights (newConverter rnd opts) a = [NaN, NaN, NaN, NaN]"
proof -
  let ?fs = "[width a, richness a, rmsLevel a, peakLevel a,
              jdiv (jadd (phaseCorrelation a) (Fin 1)) (Fin 2),
              low (frequencyDistribution a), mid (frequencyDistribution a),
              high (frequencyDistribution a)]"
  have "NaN \<in> set (map (\<lambda>i. jmax (Fin 0) (jmin (Fin 1) (rd ?fs i))) [0..<length ?fs])"
  proof -
    have "jmax (Fin 0) (jmin (Fin 1) (rd ?fs 1)) = NaN"
      using assms by (simp add: rd_def)
    moreover have "(1::nat) \<in> set [0..<length ?fs]" by simp
    ultimately show ?thesis by (metis (no_types, lifting) image_eqI set_map)
  qed
  then have "forward (createPretrainedAudioModel rnd)
               (map (\<lambda>i. jmax (Fin 0) (jmin (Fin 1) (rd ?fs i))) [0..<length ?fs]) =
             [NaN, NaN, NaN, NaN]"
    by (rule forward_model_NaN)
  then show ?thesis
    unfolding calculateMixingWeights_def newConverter_def processFeatures_def Let_def
    by (simp add: rd_def)
qed

lemma downmix_NaN:
  "performIntelligentDownmix conv buffer a [NaN, NaN, NaN, NaN] =
     replicate (length (left buffer)) NaN"
  by (auto intro!: nth_equalityI simp: performIntelligentDownmix_def downmixSample_def Let_def rd_def)

lemma preservation_NaN_richness:
  assumes "richness a = NaN" "high (frequencyDistribution a) = Fin 0"
  shows "applyPreservationTechniques conv m buffer a = m"
  using assms by (simp add: applyPreservationTechniques_def Let_def)

lemma calculateRMS_NaN: "0 < n \<Longrightarrow> calculateRMS (replicate n NaN) = NaN"
proof -
  assume n: "0 < n"
  have "foldl (\<lambda>sum i. jadd sum (jmul (rd (replicate n NaN) i) (rd (replicate n NaN) i))) (Fin 0)
          [0..<n] = NaN"
    using n by (rule foldl_jadd_NaN_elem) (simp add: rd_def n)
  then show ?thesis by (simp add: calculateRMS_def)
qed

lemma volume_NaN:
  "0 < n \<Longrightarrow> applyVolumeCompensation conv (replicate n NaN) a = replicate n NaN"
  by (auto intro!: nth_equalityI
        simp: applyVolumeCompensation_def Let_def normalizeTo_def calculateRMS_NaN rd_def)

lemma softClipSample_NaN: "softClipSample t NaN = NaN"
  by (simp add: softClipSample_def Let_def jge_def)

lemma softClip_NaN: "softClip (replicate n NaN) t = replicate n NaN"
  by (auto intro!: nth_equalityI simp: softClip_def softClipSample_NaN rd_def)

lemma convert_silent_256:
  "convert (newConverter rnd opts) (silentBuffer 256) = Inr (replicate 256 NaN)"
proof -
  have a: "analyzeStereo (silentBuffer 256) = silentAnalysis \<lparr> richness := NaN \<rparr>"
    using analyzeStereo_silent_any [of 256] calculateRichness_256 [of "silentBuffer 256"] by simp
  have r: "richness (silentAnalysis \<lparr> richness := NaN \<rparr>) = NaN"
          "high (frequencyDistribution (silentAnalysis \<lparr> richness := NaN \<rparr>)) = Fin 0"
    by (simp_all add: silentAnalysis_def)
  show ?thesis
    unfolding convert_def Let_def a mixingWeights_NaN_richness [OF r(1)] downmix_NaN
      preservation_NaN_richness [OF r]
    by (simp add: volume_NaN softClip_NaN)
qed

text \<open>
  Claim C10 says that every sample returned by \<open>convert\<close> for a valid buffer of finite
  samples has absolute value below 1. It fails for two channels of 256 zeros converted
  with the default options: the window loop of the richness computation does not run,
  the window count is 0, the richness is \<open>0/0\<close>, and every one of the 256 samples of
  the output is \<open>NaN\<close>.
\<close>

theorem silent_256_not_a_number:
  "richness (analyzeStereo (silentBuffer 256)) = NaN
   \<and> convert defaultConverter (silentBuffer 256) = Inr (replicate 256 NaN)"
  using calculateRichness_256 [of "silentBuffer 256"]
  by (simp add: defaultConverter_def convert_silent_256 analyzeStereo_def Let_def)




section \<open>Sensitivity to the width option\<close>



















end
